theory Spec2Isabelle
  imports Complex_Main
begin

section \<open>Values and exceptions\<close>

text \<open>
  The exceptions that can travel through \<^verbatim>\<open>streamclasses.py\<close>. The first four are the
  package's own error classes (imported from the package's \<^verbatim>\<open>__init__\<close>, which is not part
  of the sources at hand: they are taken as the four kinds the specification lists, each
  carrying a message). \<open>HTTPError\<close> and \<open>RequestsConnectionError\<close> are
  \<^verbatim>\<open>requests.exceptions.HTTPError\<close> and \<^verbatim>\<open>requests.exceptions.ConnectionError\<close>, two
  sibling subclasses of \<^verbatim>\<open>RequestException\<close>; \<open>SocketError\<close> is \<^verbatim>\<open>socket.error\<close> (with its
  subclasses, such as \<^verbatim>\<open>socket.timeout\<close>). The string carried is what \<^verbatim>\<open>str(e)\<close> gives.
  The remaining ones are raised by the interpreter itself.
\<close>

datatype exn =
    AuthenticationError string
  | ReconnectImmediatelyError string
  | ReconnectLinearlyError string
  | ReconnectExponentiallyError string
  | HTTPError string
  | RequestsConnectionError string
  | SocketError string
  | TypeError
  | AttributeError
  | ZeroDivisionError
  | StopIteration

fun classified :: "exn \<Rightarrow> bool" where
  "classified (AuthenticationError m) = True"
| "classified (ReconnectImmediatelyError m) = True"
| "classified (ReconnectLinearlyError m) = True"
| "classified (ReconnectExponentiallyError m) = True"
| "classified e = False"

text \<open>
  What \<^verbatim>\<open>anyjson.deserialize\<close> returns: a dict (keys in order of appearance), a list,
  a string, a number, a boolean or \<^verbatim>\<open>None\<close>.
\<close>

datatype json =
    JNull
  | JBool bool
  | JInt int
  | JFloat real
  | JStr string
  | JArr "json list"
  | JObj "(string \<times> json) list"

text \<open>What the iterator yields: the raw line in raw mode, the decoded value otherwise.\<close>

datatype tweet = Raw string | Parsed json

text \<open>Elements of the \<^verbatim>\<open>follow\<close> sequence: user ids given as numbers or as strings.\<close>

datatype pyval = PInt int | PStr string

section \<open>Strings\<close>

fun startswith :: "string \<Rightarrow> string \<Rightarrow> bool" where
  "startswith ys [] = True"
| "startswith [] (x # xs) = False"
| "startswith (y # ys) (x # xs) = (x = y \<and> startswith ys xs)"

text \<open>\<^verbatim>\<open>sub in s\<close> on two strings.\<close>

fun str_contains :: "string \<Rightarrow> string \<Rightarrow> bool" where
  "str_contains sub [] = (sub = [])"
| "str_contains sub (c # cs) = (startswith (c # cs) sub \<or> str_contains sub cs)"

text \<open>\<^verbatim>\<open>sep.join(xs)\<close>.\<close>

fun join :: "string \<Rightarrow> string list \<Rightarrow> string" where
  "join sep [] = []"
| "join sep [x] = x"
| "join sep (x # y # ys) = x @ sep @ join sep (y # ys)"

fun str_nat :: "nat \<Rightarrow> string" where
  "str_nat n =
     (if n < 10 then [''0123456789'' ! n]
      else str_nat (n div 10) @ [''0123456789'' ! (n mod 10)])"

definition str_int :: "int \<Rightarrow> string" where
  "str_int i = (if i < 0 then CHR ''-'' # str_nat (nat (- i)) else str_nat (nat i))"

text \<open>\<^verbatim>\<open>str(e)\<close> on an element of \<^verbatim>\<open>follow\<close>.\<close>

fun str :: "pyval \<Rightarrow> string" where
  "str (PInt i) = str_int i"
| "str (PStr s) = s"

section \<open>The HTTP library and the clock\<close>

text \<open>
  An event of \<^verbatim>\<open>response.iter_lines()\<close>: the next line of the body, the end of the
  body (the iterator stops), or an exception raised while reading.
\<close>

datatype line_event = Line string | Eof | Raise exn

text \<open>
  A response object: its status, what \<^verbatim>\<open>"%s" % response\<close> prints, and what its
  socket will still deliver. When \<open>body\<close> is empty the socket is silent for ever and
  a read blocks.
\<close>

record response =
  status_code :: int
  resp_str :: string
  body :: "line_event list"

datatype post_outcome = Returns response | Raises exn

record oauth1 =
  client_key :: string
  client_secret :: string
  resource_owner_key :: string
  resource_owner_secret :: string

text \<open>
  The arguments of a call of \<^verbatim>\<open>requests.post\<close>. \<open>req_timeout\<close> is its \<^verbatim>\<open>timeout\<close>
  keyword, \<open>None\<close> when the caller gives none.
\<close>

record request =
  req_url :: string
  req_stream :: bool
  req_auth :: oauth1
  req_data :: "(string \<rightharpoonup> string) option"
  req_timeout :: "real option"

text \<open>
  The outside world: the outcomes of the calls of \<^verbatim>\<open>requests.post\<close> still to come (when
  there is none left the call never returns), the requests issued so far, and the clock:
  the \<open>n\<close>-th call of \<^verbatim>\<open>time.time()\<close> returns \<open>clock n\<close>. Times are reals: the rounding of
  floating-point arithmetic is not modelled.
\<close>

record world =
  posts :: "post_outcome list"
  sent :: "request list"
  clock :: "nat \<Rightarrow> real"
  ticks :: nat

definition time_time :: "world \<Rightarrow> real \<times> world" where
  "time_time w = (clock w (ticks w), w\<lparr>ticks := Suc (ticks w)\<rparr>)"

definition requests_post :: "request \<Rightarrow> world \<Rightarrow> (post_outcome \<times> world) option" where
  "requests_post req w =
     (case posts w of
        [] \<Rightarrow> None
      | out # outs \<Rightarrow> Some (out, w\<lparr>posts := outs, sent := sent w @ [req]\<rparr>))"

section \<open>The stream object\<close>

datatype stream_class = SampleStream | UserStream | FilterStream

text \<open>The frame of the generator made by \<^verbatim>\<open>__iter__\<close>.\<close>

datatype generator = GenCreated | GenSuspended | GenFinished

record stream =
  cls :: stream_class
  rate_ts :: "real option"
  rate_cnt :: int
  consumer_key :: string
  consumer_secret :: string
  access_token :: string
  access_secret :: string
  raw_mode :: bool
  timeout :: "real option"
  iter :: generator
  rate_period :: real
  connected :: bool
  response :: "response option"
  starttime :: "real option"
  count :: int
  rate :: real
  user_agent :: string
  url_attr :: "string option"
  follow :: "pyval list option"
  locations :: "string list option"
  track :: "string list option"

section \<open>Construction and the variants\<close>

text \<open>The \<^verbatim>\<open>url\<close> attribute of each class.\<close>

fun class_url :: "stream_class \<Rightarrow> string" where
  "class_url SampleStream = ''https://stream.twitter.com/1/statuses/sample.json''"
| "class_url UserStream = ''https://userstream.twitter.com/1.1/user.json''"
| "class_url FilterStream = ''https://stream.twitter.com/1.1/statuses/filter.json''"

text \<open>\<^verbatim>\<open>self.url\<close>: the attribute of the instance when \<^verbatim>\<open>__init__\<close> has set it, else the class's.\<close>

definition url :: "stream \<Rightarrow> string" where
  "url s = (case url_attr s of Some u \<Rightarrow> u | None \<Rightarrow> class_url (cls s))"

text \<open>
  \<^verbatim>\<open>BaseStream.__init__\<close>, for an object of class \<open>c\<close>. \<open>USER_AGENT\<close> is the constant of
  the package, taken as a parameter. \<open>catchup\<close> is accepted and dropped. The attributes
  \<open>follow\<close>, \<open>locations\<close> and \<open>track\<close> only exist on a filter stream, which sets them
  before it calls this.
\<close>

definition init_base :: "stream_class \<Rightarrow> string \<Rightarrow> string \<Rightarrow> string \<Rightarrow> string \<Rightarrow> string
    \<Rightarrow> int option \<Rightarrow> bool \<Rightarrow> real option \<Rightarrow> string option \<Rightarrow> stream" where
  "init_base c USER_AGENT ck cs tok sec catchup raw tmo u =
     \<lparr> cls = c,
       rate_ts = None,
       rate_cnt = 0,
       consumer_key = ck,
       consumer_secret = cs,
       access_token = tok,
       access_secret = sec,
       raw_mode = raw,
       timeout = tmo,
       iter = GenCreated,
       rate_period = 10,
       connected = False,
       response = None,
       starttime = None,
       count = 0,
       rate = 0,
       user_agent = USER_AGENT,
       url_attr = (case u of None \<Rightarrow> None | Some v \<Rightarrow> if v = [] then None else Some v),
       follow = None,
       locations = None,
       track = None \<rparr>"

text \<open>\<^verbatim>\<open>FilterStream.__init__\<close>.\<close>

definition init_filter :: "string \<Rightarrow> string \<Rightarrow> string \<Rightarrow> string \<Rightarrow> string
    \<Rightarrow> pyval list option \<Rightarrow> string list option \<Rightarrow> string list option
    \<Rightarrow> int option \<Rightarrow> bool \<Rightarrow> real option \<Rightarrow> string option \<Rightarrow> stream" where
  "init_filter USER_AGENT ck cs tok sec fo lo tr catchup raw tmo u =
     (init_base FilterStream USER_AGENT ck cs tok sec None raw tmo u)
       \<lparr> follow := fo, locations := lo, track := tr \<rparr>"

text \<open>The truth value of an optional sequence: \<^verbatim>\<open>None\<close> and the empty list are false.\<close>

fun truthy :: "'a list option \<Rightarrow> bool" where
  "truthy None = False"
| "truthy (Some xs) = (xs \<noteq> [])"

fun elems :: "'a list option \<Rightarrow> 'a list" where
  "elems None = []"
| "elems (Some xs) = xs"

text \<open>\<^verbatim>\<open>FilterStream._get_post_data\<close>.\<close>

definition filter_post_data :: "stream \<Rightarrow> (string \<rightharpoonup> string)" where
  "filter_post_data s =
     (let postdata = Map.empty;
          postdata = (if truthy (follow s)
                      then postdata(''follow'' \<mapsto> join '','' (map str (elems (follow s))))
                      else postdata);
          postdata = (if truthy (locations s)
                      then postdata(''locations'' \<mapsto> join '','' (elems (locations s)))
                      else postdata);
          postdata = (if truthy (track s)
                      then postdata(''track'' \<mapsto> join '','' (elems (track s)))
                      else postdata)
      in postdata)"

text \<open>\<^verbatim>\<open>_get_post_data\<close>, by class: only the filter stream overrides the base method.\<close>

definition get_post_data :: "stream \<Rightarrow> (string \<rightharpoonup> string) option" where
  "get_post_data s =
     (case cls s of FilterStream \<Rightarrow> Some (filter_post_data s) | _ \<Rightarrow> None)"

section \<open>Connecting\<close>

text \<open>\<^verbatim>\<open>not x\<close> on an optional timestamp: \<^verbatim>\<open>None\<close> and \<^verbatim>\<open>0.0\<close> are false values.\<close>

fun falsy :: "real option \<Rightarrow> bool" where
  "falsy None = True"
| "falsy (Some t) = (t = 0)"

text \<open>The request that \<^verbatim>\<open>_init_conn\<close> hands to \<^verbatim>\<open>requests.post\<close>.\<close>

definition the_request :: "stream \<Rightarrow> request" where
  "the_request s =
     \<lparr> req_url = url s,
       req_stream = True,
       req_auth = \<lparr> client_key = consumer_key s, client_secret = consumer_secret s,
                    resource_owner_key = access_token s,
                    resource_owner_secret = access_secret s \<rparr>,
       req_data = get_post_data s,
       req_timeout = None \<rparr>"

text \<open>The clause \<^verbatim>\<open>except requests.exceptions.HTTPError, x\<close> of \<^verbatim>\<open>_init_conn\<close>.\<close>

fun except_HTTPError :: "exn \<Rightarrow> exn" where
  "except_HTTPError (HTTPError x) = ReconnectExponentiallyError x"
| "except_HTTPError e = e"

text \<open>\<^verbatim>\<open>close\<close>.\<close>

definition close :: "stream \<Rightarrow> stream" where
  "close s = s\<lparr>connected := False\<rparr>"

text \<open>
  \<^verbatim>\<open>_init_conn\<close>. The result is \<open>None\<close> when \<^verbatim>\<open>requests.post\<close> never returns,
  else what was raised (\<open>Inl\<close>) or a normal return, with the object and the world after.
\<close>

definition init_conn :: "stream \<Rightarrow> world \<Rightarrow> ((exn + unit) \<times> stream \<times> world) option" where
  "init_conn s w =
     (case requests_post (the_request s) w of
        None \<Rightarrow> None
      | Some (Raises x, w1) \<Rightarrow> Some (Inl (except_HTTPError x), s, w1)
      | Some (Returns r, w1) \<Rightarrow>
          (let s1 = s\<lparr>response := Some r\<rparr> in
           if status_code r = 401
           then Some (Inl (AuthenticationError ''Could not authenticate with Twitter''), s1, w1)
           else if status_code r = 404
           then Some (Inl (ReconnectExponentiallyError (url s1 @ '': '' @ resp_str r)), s1, w1)
           else
             (let s2 = s1\<lparr>connected := True\<rparr>;
                  (s3, w2) = (if falsy (starttime s2)
                              then (let (t, w') = time_time w1 in (s2\<lparr>starttime := Some t\<rparr>, w'))
                              else (s2, w1));
                  (s4, w3) = (if falsy (rate_ts s3)
                              then (let (t, w') = time_time w2 in (s3\<lparr>rate_ts := Some t\<rparr>, w'))
                              else (s3, w2))
              in Some (Inr (), s4, w3))))"

section \<open>The rate\<close>

text \<open>
  \<^verbatim>\<open>_update_rate\<close>. The subtraction in its first line is evaluated before the test;
  with \<^verbatim>\<open>_rate_ts\<close> still \<^verbatim>\<open>None\<close> it raises \<^verbatim>\<open>TypeError\<close>, after the clock has been read.
\<close>

definition update_rate :: "stream \<Rightarrow> world \<Rightarrow> (exn + unit) \<times> stream \<times> world" where
  "update_rate s w =
     (let (now, w1) = time_time w in
      case rate_ts s of
        None \<Rightarrow> (Inl TypeError, s, w1)
      | Some ts \<Rightarrow>
          (let rate_time = now - ts in
           if falsy (rate_ts s) \<or> rate_time > rate_period s
           then (if rate_time = 0 then (Inl ZeroDivisionError, s, w1)
                 else (let s1 = s\<lparr>rate := real_of_int (rate_cnt s) / rate_time\<rparr>;
                           s2 = s1\<lparr>rate_cnt := 0\<rparr>;
                           (t, w2) = time_time w1
                       in (Inr (), s2\<lparr>rate_ts := Some t\<rparr>, w2)))
           else (Inr (), s, w1)))"

section \<open>The iterator\<close>

text \<open>
  \<^verbatim>\<open>'text' in tweet\<close>: a test for a key on a dict, for an element on a list, for a
  substring on a string; on a number, a boolean or \<^verbatim>\<open>None\<close> it raises \<^verbatim>\<open>TypeError\<close>.
\<close>

fun text_in :: "tweet \<Rightarrow> exn + bool" where
  "text_in (Raw line) = Inr (str_contains ''text'' line)"
| "text_in (Parsed (JObj kvs)) = Inr (''text'' \<in> set (map fst kvs))"
| "text_in (Parsed (JArr vs)) = Inr (JStr ''text'' \<in> set vs)"
| "text_in (Parsed (JStr t)) = Inr (str_contains ''text'' t)"
| "text_in (Parsed v) = Inl TypeError"

text \<open>The counting and the \<^verbatim>\<open>yield\<close> at the end of the body of the \<^verbatim>\<open>for\<close> loop.\<close>

definition count_and_yield :: "tweet \<Rightarrow> stream \<Rightarrow> world \<Rightarrow> ((exn + tweet) \<times> stream \<times> world) option" where
  "count_and_yield tw s w =
     (case text_in tw of
        Inl e \<Rightarrow> Some (Inl e, s, w)
      | Inr b \<Rightarrow>
          Some (Inr tw,
                (if b then (s\<lparr>count := count s + 1\<rparr>)\<lparr>rate_cnt := rate_cnt s + 1\<rparr> else s),
                w))"

text \<open>The clause \<^verbatim>\<open>except socket.error, e\<close> around the body of the \<^verbatim>\<open>while\<close> loop.\<close>

fun except_socket_error :: "exn \<Rightarrow> exn" where
  "except_socket_error (SocketError e) =
     ReconnectImmediatelyError (''Server disconnected: '' @ e)"
| "except_socket_error e = e"

text \<open>What is left to happen: the measure under which the loops below end.\<close>

fun outcome_size :: "post_outcome \<Rightarrow> nat" where
  "outcome_size (Returns r) = Suc (length (body r))"
| "outcome_size (Raises e) = 1"

definition pending :: "stream \<Rightarrow> world \<Rightarrow> nat" where
  "pending s w =
     sum_list (map outcome_size (posts w))
       + (case response s of None \<Rightarrow> 0 | Some r \<Rightarrow> length (body r))"

text \<open>
  The body of the generator \<^verbatim>\<open>__iter__\<close>, from the top of \<^verbatim>\<open>while True\<close>
  (\<open>while_loop\<close>) and from the head of the \<^verbatim>\<open>for\<close> loop (\<open>for_loop\<close>), up to the next
  \<^verbatim>\<open>yield\<close> (\<open>Inr\<close>) or the exception that leaves the generator (\<open>Inl\<close>). \<open>deserialize\<close> is
  \<^verbatim>\<open>anyjson.deserialize\<close>, \<open>None\<close> where it raises \<^verbatim>\<open>ValueError\<close>. The iterator of the
  \<^verbatim>\<open>for\<close> loop reads the socket of \<^verbatim>\<open>self.response\<close>: only \<^verbatim>\<open>_init_conn\<close> assigns
  \<^verbatim>\<open>self.response\<close>, and the generator is its only caller. The result is \<open>None\<close> when
  the generator blocks for ever.
\<close>

function while_loop :: "(string \<Rightarrow> json option) \<Rightarrow> stream \<Rightarrow> world
      \<Rightarrow> ((exn + tweet) \<times> stream \<times> world) option"
  and for_loop :: "(string \<Rightarrow> json option) \<Rightarrow> stream \<Rightarrow> world
      \<Rightarrow> ((exn + tweet) \<times> stream \<times> world) option" where
  "while_loop deserialize s w =
     (if \<not> connected s then
        (case init_conn s w of
           None \<Rightarrow> None
         | Some (Inl e, s1, w1) \<Rightarrow> Some (Inl (except_socket_error e), s1, w1)
         | Some (Inr u, s1, w1) \<Rightarrow> for_loop deserialize s1 w1)
      else for_loop deserialize s w)"
| "for_loop deserialize s w =
     (case response s of
        None \<Rightarrow> Some (Inl AttributeError, s, w)
      | Some r \<Rightarrow>
          (case body r of
             [] \<Rightarrow> None
           | ev # rest \<Rightarrow>
               (let s1 = s\<lparr>response := Some (r\<lparr>body := rest\<rparr>)\<rparr> in
                case ev of
                  Eof \<Rightarrow> while_loop deserialize s1 w
                | Raise e \<Rightarrow> Some (Inl (except_socket_error e), s1, w)
                | Line line \<Rightarrow>
                    if line = [] then for_loop deserialize s1 w
                    else if raw_mode s1 then count_and_yield (Raw line) s1 w
                    else
                      (case deserialize line of
                         None \<Rightarrow>
                           Some (Inl (ReconnectImmediatelyError (''Invalid data: '' @ line)),
                                 close s1, w)
                       | Some v \<Rightarrow> count_and_yield (Parsed v) s1 w))))"
  by pat_completeness auto
termination
proof (relation "measure (\<lambda>x. case x of
          Inl (d, s, w) \<Rightarrow> 2 * pending s w + 1
        | Inr (d, s, w) \<Rightarrow> 2 * pending s w)")
  show "wf (measure (\<lambda>x. case x of
          Inl (d, s, w) \<Rightarrow> 2 * pending s w + 1
        | Inr (d, s, w) \<Rightarrow> 2 * pending s w))"
    by simp
next
  fix deserialize :: "string \<Rightarrow> json option" and s w x2 x1 y x2a x1a x2b b
  assume "\<not> connected s" "init_conn s w = Some x2" "(x1, y) = x2" "(x2a, x1a) = y" "x1 = Inr b"
  then have "init_conn s w = Some (Inr b, x2a, x1a)"
    by auto
  then have "pending x2a x1a < sum_list (map outcome_size (posts w))"
    by (auto simp: init_conn_def requests_post_def pending_def time_time_def Let_def
        split: list.splits post_outcome.splits if_splits)
  then have "pending x2a x1a < pending s w"
    by (simp add: pending_def)
  then show "(Inr (deserialize, x2a, x1a), Inl (deserialize, s, w))
      \<in> measure (\<lambda>x. case x of
          Inl (d, s, w) \<Rightarrow> 2 * pending s w + 1
        | Inr (d, s, w) \<Rightarrow> 2 * pending s w)"
    by simp
qed (auto simp: pending_def)

declare while_loop.simps [simp del] for_loop.simps [simp del]

text \<open>
  \<^verbatim>\<open>next\<close>: resumes the generator stored in \<^verbatim>\<open>self._iter\<close>. A generator that has
  raised is finished, and resuming a finished generator raises \<^verbatim>\<open>StopIteration\<close>.
\<close>

definition resume :: "((exn + tweet) \<times> stream \<times> world) option
    \<Rightarrow> ((exn + tweet) \<times> stream \<times> world) option" where
  "resume res =
     (case res of
        None \<Rightarrow> None
      | Some (Inl e, s, w) \<Rightarrow> Some (Inl e, s\<lparr>iter := GenFinished\<rparr>, w)
      | Some (Inr tw, s, w) \<Rightarrow> Some (Inr tw, s\<lparr>iter := GenSuspended\<rparr>, w))"

definition next_tweet :: "(string \<Rightarrow> json option) \<Rightarrow> stream \<Rightarrow> world
    \<Rightarrow> ((exn + tweet) \<times> stream \<times> world) option" where
  "next_tweet deserialize s w =
     (case iter s of
        GenCreated \<Rightarrow> resume (while_loop deserialize s w)
      | GenSuspended \<Rightarrow> resume (for_loop deserialize s w)
      | GenFinished \<Rightarrow> Some (Inl StopIteration, s, w))"

text \<open>\<^verbatim>\<open>__enter__\<close> and \<^verbatim>\<open>__exit__\<close>.\<close>

definition enter :: "stream \<Rightarrow> stream" where
  "enter s = s"

definition exit :: "stream \<Rightarrow> bool \<times> stream" where
  "exit s = (False, close s)"

section \<open>The key test of the specification\<close>

text \<open>
  The specification's reading of the counting test, for comparison with \<open>text_in\<close>:
  a decoded value has a key only when it is an object.
\<close>

definition has_key :: "json \<Rightarrow> string \<Rightarrow> bool" where
  "has_key v k = (case v of JObj kvs \<Rightarrow> k \<in> fst ` set kvs | _ \<Rightarrow> False)"

section \<open>Sequences of calls\<close>

text \<open>
  The public operations on a constructed object: \<^verbatim>\<open>next\<close> (which connects when it has
  to), \<^verbatim>\<open>close\<close>, and entering and leaving a \<^verbatim>\<open>with\<close> block. A caller that catches what
  \<^verbatim>\<open>next\<close> raises goes on with the object as the call left it; a call that blocks for
  ever ends the sequence.
\<close>

datatype call = Next | Close | Enter | Exit

fun perform :: "(string \<Rightarrow> json option) \<Rightarrow> call \<Rightarrow> stream \<Rightarrow> world \<Rightarrow> (stream \<times> world) option" where
  "perform deserialize Next s w =
     (case next_tweet deserialize s w of None \<Rightarrow> None | Some (res, s', w') \<Rightarrow> Some (s', w'))"
| "perform deserialize Close s w = Some (close s, w)"
| "perform deserialize Enter s w = Some (enter s, w)"
| "perform deserialize Exit s w = Some (snd (exit s), w)"

fun perform_all :: "(string \<Rightarrow> json option) \<Rightarrow> call list \<Rightarrow> stream \<Rightarrow> world
    \<Rightarrow> (stream \<times> world) option" where
  "perform_all deserialize [] s w = Some (s, w)"
| "perform_all deserialize (c # cs) s w =
     (case perform deserialize c s w of
        None \<Rightarrow> None
      | Some (s', w') \<Rightarrow> perform_all deserialize cs s' w')"

section \<open>Example objects and worlds\<close>

definition ex_response :: "line_event list \<Rightarrow> response" where
  "ex_response evs = \<lparr> status_code = 200, resp_str = ''<Response [200]>'', body = evs \<rparr>"

definition ex_world :: "post_outcome list \<Rightarrow> world" where
  "ex_world outs = \<lparr> posts = outs, sent = [], clock = (\<lambda>n. 1000 + real n), ticks = 0 \<rparr>"

definition ex_stream :: "bool \<Rightarrow> stream" where
  "ex_stream raw =
     init_base SampleStream ''tweetstream'' ''key'' ''secret'' ''token'' ''tokensecret''
       None raw (Some 5) None"

text \<open>
  The decoder on the few lines the examples use, and the object and the world right after
  a first successful connection of \<open>ex_stream\<close>.
\<close>

definition ex_deserialize :: "string \<Rightarrow> json option" where
  "ex_deserialize l =
     (if l = ''{\"text\": \"hi\"}'' then Some (JObj [(''text'', JStr ''hi'')])
      else if l = ''{\"delete\": 7}'' then Some (JObj [(''delete'', JInt 7)])
      else if l = ''[\"text\"]'' then Some (JArr [JStr ''text''])
      else None)"

definition ex_connected :: "stream \<Rightarrow> line_event list \<Rightarrow> stream" where
  "ex_connected s evs =
     s\<lparr> response := Some (ex_response evs), connected := True,
        starttime := Some 1000, rate_ts := Some 1001 \<rparr>"

definition ex_world_after :: "stream \<Rightarrow> post_outcome list \<Rightarrow> world" where
  "ex_world_after s outs =
     \<lparr> posts = outs, sent = [the_request s], clock = (\<lambda>n. 1000 + real n), ticks = 2 \<rparr>"

section \<open>Facts about the strings and the loops\<close>

lemma startswith_iff: "startswith s sub \<longleftrightarrow> (\<exists>ss. s = sub @ ss)"
  by (induction s sub rule: startswith.induct) auto

lemma str_contains_iff: "str_contains sub s \<longleftrightarrow> (\<exists>ps ss. s = ps @ sub @ ss)"
proof (induction s)
  case Nil
  then show ?case by auto
next
  case (Cons c cs)
  show ?case
  proof
    assume "str_contains sub (c # cs)"
    then consider "startswith (c # cs) sub" | "str_contains sub cs" by auto
    then show "\<exists>ps ss. c # cs = ps @ sub @ ss"
    proof cases
      case 1
      then obtain ss where "c # cs = sub @ ss" by (auto simp: startswith_iff)
      then have "c # cs = [] @ sub @ ss" by simp
      then show ?thesis by blast
    next
      case 2
      with Cons obtain ps ss where "cs = ps @ sub @ ss" by auto
      then have "c # cs = (c # ps) @ sub @ ss" by simp
      then show ?thesis by blast
    qed
  next
    assume "\<exists>ps ss. c # cs = ps @ sub @ ss"
    then obtain ps ss where e: "c # cs = ps @ sub @ ss" by blast
    show "str_contains sub (c # cs)"
    proof (cases ps)
      case Nil
      with e have "startswith (c # cs) sub" by (auto simp: startswith_iff)
      then show ?thesis by simp
    next
      case (Cons p ps')
      with e have "cs = ps' @ sub @ ss" by simp
      with Cons.IH have "str_contains sub cs" by blast
      then show ?thesis by simp
    qed
  qed
qed

lemma init_conn_fields:
  "init_conn s w = Some (res, s1, w1) \<Longrightarrow>
     raw_mode s1 = raw_mode s \<and> count s1 = count s \<and> rate_cnt s1 = rate_cnt s
       \<and> rate s1 = rate s \<and> iter s1 = iter s"
  by (auto simp: init_conn_def requests_post_def time_time_def Let_def
      split: list.splits post_outcome.splits if_splits)

lemma for_loop_skip:
  "response s = Some r \<Longrightarrow> body r = replicate k (Line []) @ evs \<Longrightarrow>
     for_loop dz s w = for_loop dz (s\<lparr>response := Some (r\<lparr>body := evs\<rparr>)\<rparr>) w"
proof (induction k arbitrary: s r)
  case 0
  then have "evs = body r" by simp
  with 0 have "s\<lparr>response := Some (r\<lparr>body := evs\<rparr>)\<rparr> = s" by simp
  then show ?case by simp
next
  case (Suc k)
  let ?r1 = "r\<lparr>body := replicate k (Line []) @ evs\<rparr>"
  let ?s1 = "s\<lparr>response := Some ?r1\<rparr>"
  from Suc.prems have "for_loop dz s w = for_loop dz ?s1 w"
    by (subst for_loop.simps) simp
  also have "\<dots> = for_loop dz (?s1\<lparr>response := Some (?r1\<lparr>body := evs\<rparr>)\<rparr>) w"
    by (rule Suc.IH) simp_all
  finally show ?case by simp
qed

lemma for_loop_line:
  "response s = Some r \<Longrightarrow> body r = Line l # rest \<Longrightarrow> l \<noteq> [] \<Longrightarrow>
     for_loop dz s w =
       (let s1 = s\<lparr>response := Some (r\<lparr>body := rest\<rparr>)\<rparr> in
        if raw_mode s then count_and_yield (Raw l) s1 w
        else (case dz l of
                None \<Rightarrow> Some (Inl (ReconnectImmediatelyError (''Invalid data: '' @ l)), close s1, w)
              | Some v \<Rightarrow> count_and_yield (Parsed v) s1 w))"
  by (subst for_loop.simps) (simp add: Let_def)

lemma next_tweet_enters:
  "iter s = GenSuspended \<and> (s1, w1) = (s, w)
     \<or> iter s = GenCreated \<and> \<not> connected s \<and> init_conn s w = Some (Inr (), s1, w1) \<Longrightarrow>
   next_tweet dz s w = resume (for_loop dz s1 w1)"
  by (auto simp: next_tweet_def while_loop.simps)

lemma ex_init_conn:
  "init_conn (ex_stream raw) (ex_world (Returns (ex_response evs) # outs))
     = Some (Inr (), ex_connected (ex_stream raw) evs, ex_world_after (ex_stream raw) outs)"
  by (simp add: init_conn_def requests_post_def ex_world_def ex_response_def ex_stream_def
      init_base_def time_time_def Let_def ex_connected_def ex_world_after_def)

lemma ex_enters:
  "iter (ex_stream raw) = GenSuspended
      \<and> (ex_connected (ex_stream raw) evs, ex_world_after (ex_stream raw) outs)
        = (ex_stream raw, ex_world (Returns (ex_response evs) # outs))
    \<or> iter (ex_stream raw) = GenCreated \<and> \<not> connected (ex_stream raw)
      \<and> init_conn (ex_stream raw) (ex_world (Returns (ex_response evs) # outs))
        = Some (Inr (), ex_connected (ex_stream raw) evs, ex_world_after (ex_stream raw) outs)"
  using ex_init_conn by (simp add: ex_stream_def init_base_def)

lemma url_response: "url (s\<lparr>response := x\<rparr>) = url s"
  by (simp add: url_def split: option.splits)

lemma count_and_yield_rate:
  "count_and_yield tw s w = Some (res, s', w') \<Longrightarrow>
     rate s' = rate s \<and> rate_cnt s' - count s' = rate_cnt s - count s"
  by (auto simp: count_and_yield_def split: sum.splits if_splits)

lemma loops_rate:
  "while_loop dz s w = Some (res, s', w') \<Longrightarrow>
     rate s' = rate s \<and> rate_cnt s' - count s' = rate_cnt s - count s"
  "for_loop dz s w = Some (res, s', w') \<Longrightarrow>
     rate s' = rate s \<and> rate_cnt s' - count s' = rate_cnt s - count s"
proof (induction dz s w and dz s w arbitrary: res s' w' and res s' w'
    rule: while_loop_for_loop.induct)
  case (1 dz s w)
  show ?case
  proof (cases "connected s")
    case True
    with "1.prems" have "for_loop dz s w = Some (res, s', w')"
      by (simp add: while_loop.simps)
    with True show ?thesis
      using "1.IH"(2) by blast
  next
    case False
    show ?thesis
    proof (cases "init_conn s w")
      case None
      with False "1.prems" show ?thesis
        by (simp add: while_loop.simps)
    next
      case (Some x)
      obtain r s1 w1 where x: "x = (r, s1, w1)"
        by (cases x)
      have f: "rate s1 = rate s \<and> rate_cnt s1 = rate_cnt s \<and> count s1 = count s"
        using Some x init_conn_fields by blast
      show ?thesis
      proof (cases r)
        case (Inl e)
        with False Some x "1.prems" f show ?thesis
          by (auto simp: while_loop.simps)
      next
        case (Inr u)
        with False Some x "1.prems" have "for_loop dz s1 w1 = Some (res, s', w')"
          by (simp add: while_loop.simps)
        with "1.IH"(1) [OF False Some, of r "(s1, w1)" u s1 w1 res s' w'] x Inr
        have "rate s' = rate s1 \<and> rate_cnt s' - count s' = rate_cnt s1 - count s1"
          by simp
        with f show ?thesis
          by simp
      qed
    qed
  qed
next
  case (2 dz s w)
  show ?case
  proof (cases "response s")
    case None
    with "2.prems" show ?thesis
      by (simp add: for_loop.simps)
  next
    case (Some r)
    show ?thesis
    proof (cases "body r")
      case Nil
      with Some "2.prems" show ?thesis
        by (simp add: for_loop.simps)
    next
      case (Cons ev rest)
      let ?s1 = "s\<lparr>response := Some (r\<lparr>body := rest\<rparr>)\<rparr>"
      show ?thesis
      proof (cases ev)
        case Eof
        with Some Cons "2.prems" have "while_loop dz ?s1 w = Some (res, s', w')"
          by (simp add: for_loop.simps)
        with "2.IH"(2) [OF Some Cons refl Eof]
        have "rate s' = rate ?s1 \<and> rate_cnt s' - count s' = rate_cnt ?s1 - count ?s1"
          by simp
        then show ?thesis
          by simp
      next
        case (Raise e)
        with Some Cons "2.prems" show ?thesis
          by (auto simp: for_loop.simps)
      next
        case (Line l)
        show ?thesis
        proof (cases "l = []")
          case True
          with Some Cons Line "2.prems" have "for_loop dz ?s1 w = Some (res, s', w')"
            by (simp add: for_loop.simps)
          with "2.IH"(1) [OF Some Cons refl Line True]
          have "rate s' = rate ?s1 \<and> rate_cnt s' - count s' = rate_cnt ?s1 - count ?s1"
            by simp
          then show ?thesis
            by simp
        next
          case False
          with Some Cons Line "2.prems" show ?thesis
            by (auto simp: for_loop.simps Let_def close_def split: if_splits option.splits
                dest!: count_and_yield_rate)
        qed
      qed
    qed
  qed
qed

lemma perform_rate:
  "perform dz c s w = Some (s', w') \<Longrightarrow>
     rate s' = rate s \<and> rate_cnt s' - count s' = rate_cnt s - count s"
proof (cases c)
  case Next
  assume "perform dz c s w = Some (s', w')"
  with Next show ?thesis
    by (auto simp: next_tweet_def resume_def
        split: generator.splits option.splits sum.splits dest!: loops_rate)
qed (auto simp: close_def enter_def exit_def)

lemma perform_all_rate:
  "perform_all dz cs s w = Some (s', w') \<Longrightarrow>
     rate s' = rate s \<and> rate_cnt s' - count s' = rate_cnt s - count s"
proof (induction cs arbitrary: s w)
  case Nil
  then show ?case by simp
next
  case (Cons c cs)
  then obtain s1 w1 where p: "perform dz c s w = Some (s1, w1)"
    and q: "perform_all dz cs s1 w1 = Some (s', w')"
    by (auto split: option.splits)
  from perform_rate [OF p] Cons.IH [OF q] show ?case
    by simp
qed


lemma for_loop_raw_text:
  assumes "raw_mode s" and "response s = Some r" and "body r = Line ''text'' # rest"
  shows "for_loop dz s w =
      Some (Inr (Raw ''text''),
        s\<lparr>response := Some (r\<lparr>body := rest\<rparr>), count := count s + 1, rate_cnt := rate_cnt s + 1\<rparr>,
        w)"
  using assms by (subst for_loop.simps) (simp add: Let_def count_and_yield_def)

lemma pulls_suspended:
  "raw_mode s \<Longrightarrow> iter s = GenSuspended \<Longrightarrow> response s = Some r \<Longrightarrow>
   body r = replicate n (Line ''text'') \<Longrightarrow>
     \<exists>s'. perform_all dz (replicate n Next) s w = Some (s', w)
       \<and> rate_cnt s' = rate_cnt s + int n \<and> rate s' = rate s"
proof (induction n arbitrary: s r)
  case 0
  then show ?case by simp
next
  case (Suc n)
  let ?r1 = "r\<lparr>body := replicate n (Line ''text'')\<rparr>"
  let ?s1 = "s\<lparr>response := Some ?r1, count := count s + 1, rate_cnt := rate_cnt s + 1,
      iter := GenSuspended\<rparr>"
  from Suc.prems have "body r = Line ''text'' # replicate n (Line ''text'')"
    by simp
  with Suc.prems have "for_loop dz s w = Some (Inr (Raw ''text''),
      s\<lparr>response := Some ?r1, count := count s + 1, rate_cnt := rate_cnt s + 1\<rparr>, w)"
    by (simp add: for_loop_raw_text)
  with Suc.prems have step: "perform dz Next s w = Some (?s1, w)"
    by (simp add: next_tweet_def resume_def)
  have "\<exists>s'. perform_all dz (replicate n Next) ?s1 w = Some (s', w)
       \<and> rate_cnt s' = rate_cnt ?s1 + int n \<and> rate s' = rate ?s1"
    using Suc.prems by (intro Suc.IH [where r = ?r1]) simp_all
  then obtain s' where "perform_all dz (replicate n Next) ?s1 w = Some (s', w)"
    and "rate_cnt s' = rate_cnt ?s1 + int n" and "rate s' = rate ?s1"
    by blast
  with step show ?case
    by simp
qed

lemma pulls_fresh:
  "\<exists>s' w'. perform_all dz (replicate n Next) (ex_stream True)
        (ex_world [Returns (ex_response (replicate n (Line ''text'')))]) = Some (s', w')
     \<and> rate_cnt s' = int n \<and> rate s' = 0"
proof (cases n)
  case 0
  then show ?thesis
    by (simp add: ex_stream_def init_base_def)
next
  case (Suc m)
  let ?w = "ex_world [Returns (ex_response (replicate n (Line ''text'')))]"
  let ?w1 = "ex_world_after (ex_stream True) []"
  let ?c = "ex_connected (ex_stream True) (replicate n (Line ''text''))"
  let ?r1 = "(ex_response (replicate n (Line ''text'')))\<lparr>body := replicate m (Line ''text'')\<rparr>"
  let ?s1 = "?c\<lparr>response := Some ?r1, count := count ?c + 1, rate_cnt := rate_cnt ?c + 1,
      iter := GenSuspended\<rparr>"
  have fresh: "iter (ex_stream True) = GenCreated \<and> \<not> connected (ex_stream True)"
    by (simp add: ex_stream_def init_base_def)
  have c: "raw_mode ?c \<and> rate_cnt ?c = 0 \<and> rate ?c = 0
      \<and> response ?c = Some (ex_response (replicate n (Line ''text'')))"
    by (simp add: ex_connected_def ex_stream_def init_base_def)
  have "body (ex_response (replicate n (Line ''text''))) = Line ''text'' # replicate m (Line ''text'')"
    using Suc by (simp add: ex_response_def)
  with c have "for_loop dz ?c ?w1 = Some (Inr (Raw ''text''),
      ?c\<lparr>response := Some ?r1, count := count ?c + 1, rate_cnt := rate_cnt ?c + 1\<rparr>, ?w1)"
    by (simp add: for_loop_raw_text)
  with fresh have step: "perform dz Next (ex_stream True) ?w = Some (?s1, ?w1)"
    by (simp add: next_tweet_def while_loop.simps ex_init_conn resume_def)
  have "\<exists>s'. perform_all dz (replicate m Next) ?s1 ?w1 = Some (s', ?w1)
       \<and> rate_cnt s' = rate_cnt ?s1 + int m \<and> rate s' = rate ?s1"
    using c by (intro pulls_suspended [where r = ?r1]) simp_all
  then obtain s' where "perform_all dz (replicate m Next) ?s1 ?w1 = Some (s', ?w1)"
    and "rate_cnt s' = rate_cnt ?s1 + int m" and "rate s' = rate ?s1"
    by blast
  with step c Suc show ?thesis
    by simp
qed

text \<open>
  With a window start recorded (and not the false value \<^verbatim>\<open>0.0\<close>) and a period that is
  not negative, \<^verbatim>\<open>_update_rate\<close> recomputes the rate and resets the window once more
  than the period has gone by, and changes nothing of the object otherwise.
\<close>

lemma update_rate_recorded:
  assumes "rate_ts s = Some ts" and "ts \<noteq> 0" and "0 \<le> rate_period s"
  shows "update_rate s w =
      (if clock w (ticks w) - ts > rate_period s
       then (Inr (),
             s\<lparr>rate := real_of_int (rate_cnt s) / (clock w (ticks w) - ts), rate_cnt := 0,
               rate_ts := Some (clock w (Suc (ticks w)))\<rparr>,
             w\<lparr>ticks := Suc (Suc (ticks w))\<rparr>)
       else (Inr (), s, w\<lparr>ticks := Suc (ticks w)\<rparr>))"
  using assms by (auto simp: update_rate_def time_time_def Let_def)

section \<open>Raw mode\<close>

text \<open>
  C10. In raw mode the test \<^verbatim>\<open>'text' in tweet\<close> is a substring test on the raw line:
  whichever way the generator reaches a non-empty line \<open>l\<close> (resumed after a
  \<^verbatim>\<open>yield\<close>, or started and connected by this call; empty keep-alive lines before
  \<open>l\<close> are skipped), the call returns \<open>l\<close> itself, and both the cumulative count and
  the counter of the rate window go up by one exactly when \<open>l\<close> contains the
  characters \<open>text\<close> in a row, by nothing otherwise. The JSON decoder is not consulted.
\<close>

theorem raw_mode_counts_substring:
  assumes "iter s = GenSuspended \<and> (s1, w1) = (s, w)
      \<or> iter s = GenCreated \<and> \<not> connected s \<and> init_conn s w = Some (Inr (), s1, w1)"
    and "raw_mode s"
    and "response s1 = Some r"
    and "body r = replicate k (Line []) @ Line l # rest"
    and "l \<noteq> []"
  shows "\<exists>s'. next_tweet deserialize s w = Some (Inr (Raw l), s', w1)
      \<and> count s' = count s + (if \<exists>ps ss. l = ps @ ''text'' @ ss then 1 else 0)
      \<and> rate_cnt s' = rate_cnt s + (if \<exists>ps ss. l = ps @ ''text'' @ ss then 1 else 0)"
proof -
  let ?s2 = "s1\<lparr>response := Some (r\<lparr>body := Line l # rest\<rparr>)\<rparr>"
  have same: "raw_mode s1 = raw_mode s \<and> count s1 = count s \<and> rate_cnt s1 = rate_cnt s"
    using assms(1) init_conn_fields by auto
  have "next_tweet deserialize s w = resume (for_loop deserialize s1 w1)"
    using assms(1) by (rule next_tweet_enters)
  also have "for_loop deserialize s1 w1 = for_loop deserialize ?s2 w1"
    using assms(3,4) by (rule for_loop_skip)
  also have "\<dots> = count_and_yield (Raw l) (?s2\<lparr>response := Some (r\<lparr>body := rest\<rparr>)\<rparr>) w1"
    using assms(2,5) same by (subst for_loop_line [where r = "r\<lparr>body := Line l # rest\<rparr>"]) simp_all
  finally show ?thesis
    using same by (simp add: count_and_yield_def resume_def str_contains_iff)
qed

theorem raw_mode_counts_substring_witness:
  "\<exists>s'. next_tweet (\<lambda>l. None) (ex_stream True)
          (ex_world [Returns (ex_response [Line [], Line ''no json, but text'', Eof])])
        = Some (Inr (Raw ''no json, but text''), s',
            \<lparr> posts = [], sent = [the_request (ex_stream True)],
              clock = (\<lambda>n. 1000 + real n), ticks = 2 \<rparr>)
      \<and> count s' = 1 \<and> rate_cnt s' = 1"
proof -
  let ?w = "ex_world [Returns (ex_response [Line [], Line ''no json, but text'', Eof])]"
  let ?w1 = "\<lparr> posts = [], sent = [the_request (ex_stream True)],
              clock = (\<lambda>n. 1000 + real n), ticks = 2 \<rparr>"
  let ?r = "ex_response [Line [], Line ''no json, but text'', Eof]"
  let ?s1 = "(ex_stream True)\<lparr>response := Some ?r, connected := True,
      starttime := Some 1000, rate_ts := Some 1001\<rparr>"
  have conn: "init_conn (ex_stream True) ?w = Some (Inr (), ?s1, ?w1)"
    by (simp add: init_conn_def requests_post_def ex_world_def ex_response_def ex_stream_def
        init_base_def time_time_def Let_def)
  have h1: "iter (ex_stream True) = GenSuspended \<and> (?s1, ?w1) = (ex_stream True, ?w)
      \<or> iter (ex_stream True) = GenCreated \<and> \<not> connected (ex_stream True)
        \<and> init_conn (ex_stream True) ?w = Some (Inr (), ?s1, ?w1)"
    using conn by (simp add: ex_stream_def init_base_def)
  have h2: "raw_mode (ex_stream True)"
    by (simp add: ex_stream_def init_base_def)
  have h3: "response ?s1 = Some ?r"
    by simp
  have h4: "body ?r = replicate 1 (Line []) @ Line ''no json, but text'' # [Eof]"
    by (simp add: ex_response_def)
  have h5: "''no json, but text'' \<noteq> []"
    by simp
  have "str_contains ''text'' ''no json, but text''"
    by simp
  then have sub: "\<exists>ps ss. ''no json, but text'' = ps @ ''text'' @ ss"
    unfolding str_contains_iff .
  show ?thesis
    using raw_mode_counts_substring [OF h1 h2 h3 h4 h5, of "\<lambda>l. None"] sub
    by (simp add: ex_stream_def init_base_def)
qed

section \<open>Decoded records\<close>

text \<open>
  C7, as amended. Outside raw mode, whichever way the generator reaches a non-empty line
  \<open>l\<close> that decodes to a JSON object, the call returns the decoded object, the
  cumulative count goes up by one exactly when the object has the key \<open>text\<close>, by
  nothing otherwise, and the line is gone from what the socket will still deliver.
\<close>

theorem decoded_object_counted_by_key:
  assumes "iter s = GenSuspended \<and> (s1, w1) = (s, w)
      \<or> iter s = GenCreated \<and> \<not> connected s \<and> init_conn s w = Some (Inr (), s1, w1)"
    and "\<not> raw_mode s"
    and "response s1 = Some r"
    and "body r = replicate k (Line []) @ Line l # rest"
    and "l \<noteq> []"
    and "deserialize l = Some (JObj kvs)"
  shows "\<exists>s'. next_tweet deserialize s w = Some (Inr (Parsed (JObj kvs)), s', w1)
      \<and> count s' = count s + (if ''text'' \<in> fst ` set kvs then 1 else 0)
      \<and> response s' = Some (r\<lparr>body := rest\<rparr>)"
proof -
  let ?s2 = "s1\<lparr>response := Some (r\<lparr>body := Line l # rest\<rparr>)\<rparr>"
  have same: "raw_mode s1 = raw_mode s \<and> count s1 = count s"
    using assms(1) init_conn_fields by auto
  have "next_tweet deserialize s w = resume (for_loop deserialize s1 w1)"
    using assms(1) by (rule next_tweet_enters)
  also have "for_loop deserialize s1 w1 = for_loop deserialize ?s2 w1"
    using assms(3,4) by (rule for_loop_skip)
  also have "\<dots> = count_and_yield (Parsed (JObj kvs))
      (?s2\<lparr>response := Some (r\<lparr>body := rest\<rparr>)\<rparr>) w1"
    using assms(2,5,6) same
    apply (subst for_loop_line [where r = "r\<lparr>body := Line l # rest\<rparr>"])
     apply simp
    apply simp
   apply simp
  apply (simp add: Let_def)
  done
  finally show ?thesis
    using same by (simp add: count_and_yield_def resume_def)
qed

theorem decoded_object_counted_by_key_witness:
  "\<exists>s'. next_tweet ex_deserialize (ex_stream False)
          (ex_world [Returns (ex_response [Line [], Line ''{\"delete\": 7}'', Line ''{\"text\": \"hi\"}''])])
        = Some (Inr (Parsed (JObj [(''delete'', JInt 7)])), s', ex_world_after (ex_stream False) [])
      \<and> count s' = 0
      \<and> response s' = Some (ex_response [Line ''{\"text\": \"hi\"}''])"
proof -
  have h2: "\<not> raw_mode (ex_stream False)"
    by (simp add: ex_stream_def init_base_def)
  have h3: "response (ex_connected (ex_stream False)
        [Line [], Line ''{\"delete\": 7}'', Line ''{\"text\": \"hi\"}''])
      = Some (ex_response [Line [], Line ''{\"delete\": 7}'', Line ''{\"text\": \"hi\"}''])"
    by (simp add: ex_connected_def)
  have h4: "body (ex_response [Line [], Line ''{\"delete\": 7}'', Line ''{\"text\": \"hi\"}''])
      = replicate 1 (Line []) @ Line ''{\"delete\": 7}'' # [Line ''{\"text\": \"hi\"}'']"
    by (simp add: ex_response_def)
  have h5: "''{\"delete\": 7}'' \<noteq> []"
    by simp
  have h6: "ex_deserialize ''{\"delete\": 7}'' = Some (JObj [(''delete'', JInt 7)])"
    by (simp add: ex_deserialize_def)
  show ?thesis
    using decoded_object_counted_by_key
      [where deserialize = ex_deserialize, OF ex_enters [of False "[Line [], Line ''{\"delete\": 7}'', Line ''{\"text\": \"hi\"}'']" "[]"]
        h2 h3 h4 h5 h6]
    by (simp add: ex_stream_def init_base_def ex_response_def)
qed

text \<open>
  The claim as written speaks of every line that parses as JSON. The line
  \<^verbatim>\<open>["text"]\<close> parses, to a list that has no key at all, and the count goes up:
  on a list \<^verbatim>\<open>'text' in tweet\<close> is a test for an element.
\<close>

theorem decoded_array_counted_counterexample:
  "next_tweet ex_deserialize (ex_stream False) (ex_world [Returns (ex_response [Line ''[\"text\"]''])])
     = Some (Inr (Parsed (JArr [JStr ''text''])),
         (ex_connected (ex_stream False) [])\<lparr>count := 1, rate_cnt := 1, iter := GenSuspended\<rparr>,
         ex_world_after (ex_stream False) [])
   \<and> count (ex_stream False) = 0
   \<and> \<not> has_key (JArr [JStr ''text'']) ''text''"
proof -
  have fresh: "iter (ex_stream False) = GenCreated \<and> \<not> connected (ex_stream False)
      \<and> count (ex_stream False) = 0"
    by (simp add: ex_stream_def init_base_def)
  have "for_loop ex_deserialize (ex_connected (ex_stream False) [Line ''[\"text\"]''])
        (ex_world_after (ex_stream False) [])
      = Some (Inr (Parsed (JArr [JStr ''text''])),
          (ex_connected (ex_stream False) [])\<lparr>count := 1, rate_cnt := 1\<rparr>,
          ex_world_after (ex_stream False) [])"
    by (simp add: for_loop.simps ex_stream_def init_base_def ex_connected_def ex_response_def
        ex_deserialize_def count_and_yield_def Let_def)
  then show ?thesis
    using fresh
    by (simp add: next_tweet_def while_loop.simps ex_init_conn resume_def has_key_def)
qed

section \<open>Malformed lines\<close>

text \<open>
  Outside raw mode, whichever way the generator reaches a non-empty line \<open>l\<close> that
  \<^verbatim>\<open>anyjson.deserialize\<close> rejects, the call closes the connection (the connected flag
  is false) and fails with \<open>ReconnectImmediatelyError\<close>, whose message ends in \<open>l\<close>.
\<close>

lemma malformed_line_closes:
  assumes "iter s = GenSuspended \<and> (s1, w1) = (s, w)
      \<or> iter s = GenCreated \<and> \<not> connected s \<and> init_conn s w = Some (Inr (), s1, w1)"
    and "\<not> raw_mode s"
    and "response s1 = Some r"
    and "body r = replicate k (Line []) @ Line l # rest"
    and "l \<noteq> []"
    and "deserialize l = None"
  shows "\<exists>s'. next_tweet deserialize s w
        = Some (Inl (ReconnectImmediatelyError (''Invalid data: '' @ l)), s', w1)
      \<and> \<not> connected s'"
proof -
  let ?s2 = "s1\<lparr>response := Some (r\<lparr>body := Line l # rest\<rparr>)\<rparr>"
  have same: "raw_mode s1 = raw_mode s"
    using assms(1) init_conn_fields by auto
  have "next_tweet deserialize s w = resume (for_loop deserialize s1 w1)"
    using assms(1) by (rule next_tweet_enters)
  also have "for_loop deserialize s1 w1 = for_loop deserialize ?s2 w1"
    using assms(3,4) by (rule for_loop_skip)
  also have "\<dots> = Some (Inl (ReconnectImmediatelyError (''Invalid data: '' @ l)),
      close (?s2\<lparr>response := Some (r\<lparr>body := rest\<rparr>)\<rparr>), w1)"
    using assms(2,5,6) same
    apply (subst for_loop_line [where r = "r\<lparr>body := Line l # rest\<rparr>"])
     apply simp
    apply simp
   apply simp
  apply (simp add: Let_def)
  done
  finally show ?thesis
    by (simp add: resume_def close_def)
qed

text \<open>
  C1, evaluated where the code departs from it. The first connection delivers the
  malformed line \<open>oops\<close>; a second connection with a good record is on offer. The first
  call of \<^verbatim>\<open>next\<close> closes the connection and fails with \<open>ReconnectImmediatelyError\<close>,
  as the claim says. The call of \<^verbatim>\<open>next\<close> after it does not connect again: the
  generator kept in \<^verbatim>\<open>self._iter\<close> is finished, the call raises \<open>StopIteration\<close>, and
  the one request of the first connection is still the only one sent. The body of the
  generator itself, started anew on the same object as \<^verbatim>\<open>for tweet in stream\<close> does,
  does connect again: it sends a second request and yields the record.
\<close>

theorem no_reconnect_after_malformed_line:
  "next_tweet ex_deserialize (ex_stream False)
      (ex_world [Returns (ex_response [Line ''oops'']),
                 Returns (ex_response [Line ''{\"text\": \"hi\"}''])])
     = Some (Inl (ReconnectImmediatelyError ''Invalid data: oops''),
         (ex_connected (ex_stream False) [])\<lparr>connected := False, iter := GenFinished\<rparr>,
         ex_world_after (ex_stream False) [Returns (ex_response [Line ''{\"text\": \"hi\"}''])])
   \<and> next_tweet ex_deserialize
        ((ex_connected (ex_stream False) [])\<lparr>connected := False, iter := GenFinished\<rparr>)
        (ex_world_after (ex_stream False) [Returns (ex_response [Line ''{\"text\": \"hi\"}''])])
     = Some (Inl StopIteration,
         (ex_connected (ex_stream False) [])\<lparr>connected := False, iter := GenFinished\<rparr>,
         ex_world_after (ex_stream False) [Returns (ex_response [Line ''{\"text\": \"hi\"}''])])
   \<and> sent (ex_world_after (ex_stream False) [Returns (ex_response [Line ''{\"text\": \"hi\"}''])])
     = [the_request (ex_stream False)]
   \<and> while_loop ex_deserialize
        ((ex_connected (ex_stream False) [])\<lparr>connected := False, iter := GenFinished\<rparr>)
        (ex_world_after (ex_stream False) [Returns (ex_response [Line ''{\"text\": \"hi\"}''])])
     = Some (Inr (Parsed (JObj [(''text'', JStr ''hi'')])),
         (ex_connected (ex_stream False) [])\<lparr>count := 1, rate_cnt := 1, iter := GenFinished\<rparr>,
         \<lparr>posts = [], sent = [the_request (ex_stream False), the_request (ex_stream False)],
           clock = (\<lambda>n. 1000 + real n), ticks = 2\<rparr>)"
proof -
  let ?after = "(ex_connected (ex_stream False) [])\<lparr>connected := False, iter := GenFinished\<rparr>"
  let ?w = "ex_world_after (ex_stream False) [Returns (ex_response [Line ''{\"text\": \"hi\"}''])]"
  let ?w2 = "\<lparr>posts = [], sent = [the_request (ex_stream False), the_request (ex_stream False)],
           clock = (\<lambda>n. 1000 + real n), ticks = 2\<rparr>"
  have fresh: "iter (ex_stream False) = GenCreated \<and> \<not> connected (ex_stream False)"
    by (simp add: ex_stream_def init_base_def)
  have first: "for_loop ex_deserialize (ex_connected (ex_stream False) [Line ''oops'']) ?w
      = Some (Inl (ReconnectImmediatelyError ''Invalid data: oops''),
          (ex_connected (ex_stream False) [])\<lparr>connected := False\<rparr>, ?w)"
    by (simp add: for_loop.simps ex_stream_def init_base_def ex_connected_def ex_response_def
        ex_deserialize_def close_def Let_def)
  have req: "the_request ?after = the_request (ex_stream False)"
    by (simp add: the_request_def url_def get_post_data_def ex_connected_def
        ex_stream_def init_base_def)
  have again: "init_conn ?after ?w
      = Some (Inr (), (ex_connected (ex_stream False) [Line ''{\"text\": \"hi\"}''])
            \<lparr>iter := GenFinished\<rparr>, ?w2)"
    unfolding init_conn_def req
    by (simp add: requests_post_def ex_world_after_def ex_response_def ex_connected_def
        ex_stream_def init_base_def Let_def)
  have loop: "for_loop ex_deserialize
        ((ex_connected (ex_stream False) [Line ''{\"text\": \"hi\"}''])\<lparr>iter := GenFinished\<rparr>) ?w2
      = Some (Inr (Parsed (JObj [(''text'', JStr ''hi'')])),
          (ex_connected (ex_stream False) [])\<lparr>count := 1, rate_cnt := 1, iter := GenFinished\<rparr>,
          ?w2)"
    by (simp add: for_loop.simps ex_stream_def init_base_def ex_connected_def ex_response_def
        ex_deserialize_def count_and_yield_def Let_def)
  have fresh_gen: "while_loop ex_deserialize ?after ?w
      = Some (Inr (Parsed (JObj [(''text'', JStr ''hi'')])),
          (ex_connected (ex_stream False) [])\<lparr>count := 1, rate_cnt := 1, iter := GenFinished\<rparr>,
          ?w2)"
    by (subst while_loop.simps) (simp add: again loop)
  have stored: "next_tweet ex_deserialize (ex_stream False)
      (ex_world [Returns (ex_response [Line ''oops'']),
                 Returns (ex_response [Line ''{\"text\": \"hi\"}''])])
     = Some (Inl (ReconnectImmediatelyError ''Invalid data: oops''), ?after, ?w)
   \<and> next_tweet ex_deserialize ?after ?w = Some (Inl StopIteration, ?after, ?w)
   \<and> sent ?w = [the_request (ex_stream False)]"
    using fresh first
    by (simp add: next_tweet_def while_loop.simps ex_init_conn resume_def ex_world_after_def)
  from stored fresh_gen show ?thesis
    by blast
qed

section \<open>Rejected connections\<close>

text \<open>
  C8. When \<^verbatim>\<open>requests.post\<close> returns a response with status 401, \<^verbatim>\<open>_init_conn\<close>
  raises \<open>AuthenticationError\<close>; with status 404 it raises
  \<open>ReconnectExponentiallyError\<close>, whose message is the URL and the response. In both
  cases the response is stored, nothing else of the object changes, and the connected
  flag, false before, is false after.
\<close>

theorem init_conn_401_404:
  assumes "posts w = Returns r # outs"
    and "status_code r = 401 \<or> status_code r = 404"
    and "\<not> connected s"
  shows "init_conn s w =
      Some (Inl (if status_code r = 401
                 then AuthenticationError ''Could not authenticate with Twitter''
                 else ReconnectExponentiallyError (url s @ '': '' @ resp_str r)),
            s\<lparr>response := Some r\<rparr>,
            w\<lparr>posts := outs, sent := sent w @ [the_request s]\<rparr>)
    \<and> \<not> connected (s\<lparr>response := Some r\<rparr>)"
  using assms by (auto simp: init_conn_def requests_post_def url_response Let_def)

theorem init_conn_401_404_witness:
  "init_conn (ex_stream False)
      (ex_world [Returns \<lparr>status_code = 401, resp_str = ''<Response [401]>'', body = []\<rparr>])
     = Some (Inl (AuthenticationError ''Could not authenticate with Twitter''),
         (ex_stream False)\<lparr>response :=
            Some \<lparr>status_code = 401, resp_str = ''<Response [401]>'', body = []\<rparr>\<rparr>,
         \<lparr>posts = [], sent = [the_request (ex_stream False)],
           clock = (\<lambda>n. 1000 + real n), ticks = 0\<rparr>)
   \<and> init_conn (ex_stream False)
      (ex_world [Returns \<lparr>status_code = 404, resp_str = ''<Response [404]>'', body = []\<rparr>])
     = Some (Inl (ReconnectExponentiallyError
           ''https://stream.twitter.com/1/statuses/sample.json: <Response [404]>''),
         (ex_stream False)\<lparr>response :=
            Some \<lparr>status_code = 404, resp_str = ''<Response [404]>'', body = []\<rparr>\<rparr>,
         \<lparr>posts = [], sent = [the_request (ex_stream False)],
           clock = (\<lambda>n. 1000 + real n), ticks = 0\<rparr>)
   \<and> \<not> connected ((ex_stream False)\<lparr>response :=
            Some \<lparr>status_code = 404, resp_str = ''<Response [404]>'', body = []\<rparr>\<rparr>)"
proof -
  have c: "\<not> connected (ex_stream False)"
    by (simp add: ex_stream_def init_base_def)
  have u: "url (ex_stream False) = ''https://stream.twitter.com/1/statuses/sample.json''"
    by (simp add: url_def ex_stream_def init_base_def)
  have p1: "posts (ex_world [Returns \<lparr>status_code = 401, resp_str = ''<Response [401]>'', body = []\<rparr>])
      = Returns \<lparr>status_code = 401, resp_str = ''<Response [401]>'', body = []\<rparr> # []"
    by (simp add: ex_world_def)
  have p2: "posts (ex_world [Returns \<lparr>status_code = 404, resp_str = ''<Response [404]>'', body = []\<rparr>])
      = Returns \<lparr>status_code = 404, resp_str = ''<Response [404]>'', body = []\<rparr> # []"
    by (simp add: ex_world_def)
  have s1: "status_code \<lparr>status_code = 401, resp_str = ''<Response [401]>'', body = []\<rparr> = 401
      \<or> status_code \<lparr>status_code = 401, resp_str = ''<Response [401]>'', body = []\<rparr> = 404"
    by simp
  have s2: "status_code \<lparr>status_code = 404, resp_str = ''<Response [404]>'', body = []\<rparr> = 401
      \<or> status_code \<lparr>status_code = 404, resp_str = ''<Response [404]>'', body = []\<rparr> = 404"
    by simp
  show ?thesis
    using init_conn_401_404 [OF p1 s1 c] init_conn_401_404 [OF p2 s2 c] u
    by (simp add: ex_world_def)
qed

section \<open>The payload of the filter stream\<close>

text \<open>
  C9. The payload of a filter stream has the key \<open>track\<close>, \<open>locations\<close> or
  \<open>follow\<close> exactly when the sequence given to the constructor is neither \<^verbatim>\<open>None\<close>
  nor empty, with the elements joined by commas as its value, and no other key; it is
  what the request carries as its data. For \<^verbatim>\<open>track=["foo","bar"]\<close>, \<^verbatim>\<open>follow=[]\<close>,
  \<^verbatim>\<open>locations=None\<close> it is exactly \<^verbatim>\<open>{"track": "foo,bar"}\<close>.
\<close>

theorem filter_post_data_fields:
  "filter_post_data (init_filter ua ck cs tok sec fo lo tr catchup raw tmo u) k =
     (if k = ''track'' \<and> tr \<noteq> None \<and> tr \<noteq> Some [] then Some (join '','' (the tr))
      else if k = ''locations'' \<and> lo \<noteq> None \<and> lo \<noteq> Some [] then Some (join '','' (the lo))
      else if k = ''follow'' \<and> fo \<noteq> None \<and> fo \<noteq> Some [] then Some (join '','' (map str (the fo)))
      else None)
   \<and> req_data (the_request (init_filter ua ck cs tok sec fo lo tr catchup raw tmo u))
      = Some (filter_post_data (init_filter ua ck cs tok sec fo lo tr catchup raw tmo u))
   \<and> filter_post_data
        (init_filter ua ck cs tok sec (Some []) None (Some [''foo'', ''bar'']) catchup raw tmo u)
      = [''track'' \<mapsto> ''foo,bar'']"
  by (cases fo; cases lo; cases tr)
    (simp_all add: filter_post_data_def init_filter_def init_base_def Let_def
      the_request_def get_post_data_def)

theorem filter_post_data_fields_witness:
  "filter_post_data
      (init_filter ''ua'' ''k'' ''s'' ''t'' ''ts'' (Some [PInt 12, PStr ''34'']) (Some [])
         (Some [''foo'']) None False None None) ''follow''
     = Some ''12,34''
   \<and> filter_post_data
      (init_filter ''ua'' ''k'' ''s'' ''t'' ''ts'' (Some [PInt 12, PStr ''34'']) (Some [])
         (Some [''foo'']) None False None None) ''locations''
     = None"
  using filter_post_data_fields [of "''ua''" "''k''" "''s''" "''t''" "''ts''"
      "Some [PInt 12, PStr ''34'']" "Some []" "Some [''foo'']" None False None None "''follow''"]
    filter_post_data_fields [of "''ua''" "''k''" "''s''" "''t''" "''ts''"
      "Some [PInt 12, PStr ''34'']" "Some []" "Some [''foo'']" None False None None "''locations''"]
  by (simp add: str_int_def)

section \<open>Failures while connecting\<close>

text \<open>
  C2, evaluated where the code departs from it. \<^verbatim>\<open>requests.post\<close> raises
  \<^verbatim>\<open>requests.exceptions.ConnectionError\<close> (connection refused). \<^verbatim>\<open>_init_conn\<close> catches
  \<^verbatim>\<open>requests.exceptions.HTTPError\<close> only, so the exception passes through it, and
  through \<^verbatim>\<open>next\<close>, as it is: it is not one of the four kinds.
\<close>

theorem connection_error_not_converted:
  "init_conn (ex_stream False) (ex_world [Raises (RequestsConnectionError ''Connection refused'')])
     = Some (Inl (RequestsConnectionError ''Connection refused''), ex_stream False,
         \<lparr>posts = [], sent = [the_request (ex_stream False)],
           clock = (\<lambda>n. 1000 + real n), ticks = 0\<rparr>)
   \<and> next_tweet ex_deserialize (ex_stream False)
        (ex_world [Raises (RequestsConnectionError ''Connection refused'')])
     = Some (Inl (RequestsConnectionError ''Connection refused''),
         (ex_stream False)\<lparr>iter := GenFinished\<rparr>,
         \<lparr>posts = [], sent = [the_request (ex_stream False)],
           clock = (\<lambda>n. 1000 + real n), ticks = 0\<rparr>)
   \<and> \<not> classified (RequestsConnectionError ''Connection refused'')"
proof -
  have fresh: "iter (ex_stream False) = GenCreated \<and> \<not> connected (ex_stream False)"
    by (simp add: ex_stream_def init_base_def)
  have conn: "init_conn (ex_stream False)
        (ex_world [Raises (RequestsConnectionError ''Connection refused'')])
      = Some (Inl (RequestsConnectionError ''Connection refused''), ex_stream False,
          \<lparr>posts = [], sent = [the_request (ex_stream False)],
            clock = (\<lambda>n. 1000 + real n), ticks = 0\<rparr>)"
    by (simp add: init_conn_def requests_post_def ex_world_def)
  show ?thesis
    using fresh conn by (simp add: next_tweet_def while_loop.simps resume_def)
qed

section \<open>Socket errors\<close>

text \<open>
  C3, evaluated where the code departs from it. A first call yields a record; at the
  second the socket raises \<^verbatim>\<open>socket.error\<close>. The call fails with
  \<open>ReconnectImmediatelyError\<close>, and the connected flag is still true: the handler does
  not call \<^verbatim>\<open>close\<close>, as the handler of a malformed line does.
\<close>

theorem socket_error_leaves_connected:
  "next_tweet ex_deserialize (ex_stream False)
      (ex_world [Returns (ex_response
         [Line ''{\"text\": \"hi\"}'', Raise (SocketError ''Connection reset by peer'')])])
     = Some (Inr (Parsed (JObj [(''text'', JStr ''hi'')])),
         (ex_connected (ex_stream False) [Raise (SocketError ''Connection reset by peer'')])
           \<lparr>count := 1, rate_cnt := 1, iter := GenSuspended\<rparr>,
         ex_world_after (ex_stream False) [])
   \<and> next_tweet ex_deserialize
        ((ex_connected (ex_stream False) [Raise (SocketError ''Connection reset by peer'')])
           \<lparr>count := 1, rate_cnt := 1, iter := GenSuspended\<rparr>)
        (ex_world_after (ex_stream False) [])
     = Some (Inl (ReconnectImmediatelyError ''Server disconnected: Connection reset by peer''),
         (ex_connected (ex_stream False) [])\<lparr>count := 1, rate_cnt := 1, iter := GenFinished\<rparr>,
         ex_world_after (ex_stream False) [])
   \<and> connected
        ((ex_connected (ex_stream False) [])\<lparr>count := 1, rate_cnt := 1, iter := GenFinished\<rparr>)"
proof -
  have fresh: "iter (ex_stream False) = GenCreated \<and> \<not> connected (ex_stream False)"
    by (simp add: ex_stream_def init_base_def)
  have first: "for_loop ex_deserialize
        (ex_connected (ex_stream False)
           [Line ''{\"text\": \"hi\"}'', Raise (SocketError ''Connection reset by peer'')])
        (ex_world_after (ex_stream False) [])
      = Some (Inr (Parsed (JObj [(''text'', JStr ''hi'')])),
          (ex_connected (ex_stream False) [Raise (SocketError ''Connection reset by peer'')])
            \<lparr>count := 1, rate_cnt := 1\<rparr>,
          ex_world_after (ex_stream False) [])"
    by (simp add: for_loop.simps ex_stream_def init_base_def ex_connected_def ex_response_def
        ex_deserialize_def count_and_yield_def Let_def)
  have second: "for_loop ex_deserialize
        ((ex_connected (ex_stream False) [Raise (SocketError ''Connection reset by peer'')])
            \<lparr>count := 1, rate_cnt := 1, iter := GenSuspended\<rparr>)
        (ex_world_after (ex_stream False) [])
      = Some (Inl (ReconnectImmediatelyError ''Server disconnected: Connection reset by peer''),
          (ex_connected (ex_stream False) [])
            \<lparr>count := 1, rate_cnt := 1, iter := GenSuspended\<rparr>,
          ex_world_after (ex_stream False) [])"
    by (simp add: for_loop.simps ex_connected_def ex_response_def Let_def)
  show ?thesis
    using fresh first second
    by (simp add: next_tweet_def while_loop.simps ex_init_conn resume_def ex_connected_def)
qed

section \<open>The timeout\<close>

text \<open>
  C4, evaluated where the code departs from it. The timeout given to the constructor is
  stored in the object, and the request that \<^verbatim>\<open>_init_conn\<close> issues carries none,
  whatever was stored: here an object built with a timeout of 5 seconds connects, and
  the one request sent has no timeout.
\<close>

theorem timeout_not_passed:
  "timeout (init_base c ua ck cs tok sec catchup raw (Some t) u) = Some t
   \<and> req_timeout (the_request (init_base c ua ck cs tok sec catchup raw (Some t) u)) = None
   \<and> timeout (ex_stream False) = Some 5
   \<and> init_conn (ex_stream False) (ex_world [Returns (ex_response [])])
     = Some (Inr (), ex_connected (ex_stream False) [], ex_world_after (ex_stream False) [])
   \<and> map req_timeout (sent (ex_world_after (ex_stream False) [])) = [None]"
  by (simp add: ex_init_conn) (simp add: init_base_def the_request_def ex_world_after_def ex_stream_def)

section \<open>Updating the rate\<close>

text \<open>
  C5, evaluated where the code departs from it. On an object just constructed no window
  start has been recorded, and \<^verbatim>\<open>_update_rate\<close> raises \<^verbatim>\<open>TypeError\<close>: it subtracts
  \<^verbatim>\<open>None\<close> from the time before it tests \<^verbatim>\<open>not self._rate_ts\<close>. The object is left
  as it was.
\<close>

theorem update_rate_before_connecting:
  "update_rate (init_base c ua ck cs tok sec catchup raw tmo u) w
     = (Inl TypeError, init_base c ua ck cs tok sec catchup raw tmo u, w\<lparr>ticks := Suc (ticks w)\<rparr>)"
  by (simp add: update_rate_def time_time_def init_base_def)

section \<open>The rate is never updated\<close>

text \<open>
  C6. After any sequence of public calls on a constructed object, of either constructor,
  in any world, the rate is the 0 it was constructed with, and the counter of the rate
  window, never reset, equals the cumulative count. The counter has no bound: for every
  \<open>n\<close>, \<open>n\<close> calls of \<^verbatim>\<open>next\<close> on a raw stream that delivers \<open>n\<close> lines \<open>text\<close>
  leave it at \<open>n\<close>, with the rate still 0.
\<close>

theorem rate_never_updated:
  assumes "s0 = init_base c ua ck cs tok sec catchup raw tmo u
      \<or> s0 = init_filter ua ck cs tok sec fo lo tr catchup raw tmo u"
    and "perform_all deserialize calls s0 w = Some (s', w')"
  shows "rate s' = 0 \<and> rate_cnt s' = count s'
    \<and> (\<forall>n. \<exists>s'' w''. perform_all deserialize (replicate n Next) (ex_stream True)
            (ex_world [Returns (ex_response (replicate n (Line ''text'')))]) = Some (s'', w'')
          \<and> rate_cnt s'' = int n \<and> rate s'' = 0)"
proof -
  from assms(1) have "rate s0 = 0 \<and> rate_cnt s0 = 0 \<and> count s0 = 0"
    by (auto simp: init_base_def init_filter_def)
  with perform_all_rate [OF assms(2)] have "rate s' = 0 \<and> rate_cnt s' = count s'"
    by simp
  then show ?thesis
    using pulls_fresh by blast
qed

theorem rate_never_updated_witness:
  "\<exists>s' w'. perform_all ex_deserialize [Enter, Next, Next, Close, Next, Exit] (ex_stream False)
        (ex_world [Returns (ex_response
           [Line ''{\"text\": \"hi\"}'', Line ''{\"delete\": 7}'', Line ''{\"text\": \"hi\"}''])])
      = Some (s', w')
    \<and> rate s' = 0 \<and> rate_cnt s' = 2 \<and> count s' = 2"
proof -
  let ?w = "ex_world [Returns (ex_response
           [Line ''{\"text\": \"hi\"}'', Line ''{\"delete\": 7}'', Line ''{\"text\": \"hi\"}''])]"
  let ?s' = "(ex_connected (ex_stream False) [])
      \<lparr>count := 2, rate_cnt := 2, iter := GenSuspended, connected := False\<rparr>"
  have fresh: "iter (ex_stream False) = GenCreated \<and> \<not> connected (ex_stream False)"
    by (simp add: ex_stream_def init_base_def)
  have run: "perform_all ex_deserialize [Enter, Next, Next, Close, Next, Exit] (ex_stream False) ?w
      = Some (?s', ex_world_after (ex_stream False) [])"
    using fresh
    by (simp add: enter_def exit_def next_tweet_def while_loop.simps ex_init_conn resume_def)
      (simp add: next_tweet_def resume_def for_loop.simps ex_connected_def ex_response_def
        ex_deserialize_def ex_stream_def init_base_def count_and_yield_def close_def
        enter_def exit_def Let_def)
  have s0: "ex_stream False = init_base SampleStream ''tweetstream'' ''key'' ''secret'' ''token''
        ''tokensecret'' None False (Some 5) None
      \<or> ex_stream False = init_filter ''tweetstream'' ''key'' ''secret'' ''token''
        ''tokensecret'' None None None None False (Some 5) None"
    by (simp add: ex_stream_def)
  from rate_never_updated [OF s0 run] run show ?thesis
    by (simp add: ex_connected_def)
qed

end
